theory Spec2Isabelle
  imports Complex_Main
begin

section \<open>Data model\<close>

text \<open>
  The three tables of \<^verbatim>\<open>SafeDataBaseWrapper.py\<close> (imported by the other modules as
  \<^verbatim>\<open>db_manager\<close>), one record per row. SQLite's REAL columns and Python's floats are
  modelled as exact rationals: binary64 rounding error, overflow and signed zero are outside
  the model. What the code does with a zero divisor and with NaN is written out below.
  A fetched row is a \<^verbatim>\<open>sqlite3.Row\<close> (\<^verbatim>\<open>conn.row_factory = sqlite3.Row\<close>): the
  engines read it by column name, which a \<^verbatim>\<open>Row\<close> supports, so there a record
  field stands for \<^verbatim>\<open>row['price']\<close>; pandas reads it as a plain sequence (see the Signal
  Engine).
  Every table has an \<^verbatim>\<open>INTEGER PRIMARY KEY AUTOINCREMENT\<close> column; its counter
  (SQLite's \<^verbatim>\<open>sqlite_sequence\<close>) is a field of the state.
\<close>

datatype action = BUY | SELL | HOLD

record price_row =
  p_id :: nat
  p_asset :: string
  p_timestamp :: int
  p_price :: rat

record signal_row =
  s_id :: nat
  s_asset :: string
  s_timestamp :: int
  s_signal_value :: rat
  s_sma_20 :: "rat option"
  s_sma_50 :: "rat option"

record trade_row =
  t_id :: nat
  t_asset :: string
  t_timestamp :: int
  t_action :: action
  t_quantity :: rat
  t_price :: rat

text \<open>
  An exception as a value: the two kinds of \<^verbatim>\<open>sqlite3.Error\<close> the model needs, and
  the \<^verbatim>\<open>KeyError\<close> of a dictionary lookup.
\<close>

datatype error = OperationalError | IntegrityError | KeyError

text \<open>
  What the code prints, one constructor per \<^verbatim>\<open>print\<close> statement, with the values
  its format string shows.
\<close>

datatype msg =
    DatabaseError error
  | ErrorInsertingPriceData error
  | ErrorInsertingSignal error
  | ErrorInsertingTradeAction error
  | SkipNotEnoughData string nat nat
  | SignalMsg string "rat option" "rat option"
  | HoldNoPriceData string
  | ErrorCouldNotFetchSignal error
  | HoldNeutral rat
  | TradeExecuted action rat string rat rat
  | FeederSuccess string rat
  | FeederError string error

record world =
  price_data :: "price_row list"
  price_seq :: nat
  signals :: "signal_row list"
  signals_seq :: nat
  trade_history :: "trade_row list"
  trade_seq :: nat
  console :: "msg list"

definition print :: "msg \<Rightarrow> world \<Rightarrow> world" where
  "print m w = w\<lparr>console := console w @ [m]\<rparr>"

text \<open>The state after \<^verbatim>\<open>initialize_database\<close> on a fresh file: three empty tables.\<close>

definition initial_world :: world where
  "initial_world = \<lparr>price_data = [], price_seq = 0, signals = [], signals_seq = 0,
     trade_history = [], trade_seq = 0, console = []\<rparr>"

text \<open>Two states hold the same stored rows (the console apart).\<close>

definition same_store :: "world \<Rightarrow> world \<Rightarrow> bool" where
  "same_store w w' \<longleftrightarrow>
     price_data w' = price_data w \<and> price_seq w' = price_seq w \<and>
     signals w' = signals w \<and> signals_seq w' = signals_seq w \<and>
     trade_history w' = trade_history w \<and> trade_seq w' = trade_seq w"

section \<open>Rounding\<close>

text \<open>
  \<^verbatim>\<open>round(x, 4)\<close>: to the nearest multiple of 1/10000, a tie to the even one, on the
  exact value. The code rounds the binary64 value, which next to a tie (100.00005, say) can
  land on the other neighbour; the two agree on 0, 1/2 and 1 and on whole numbers, and no
  property below rests on any other rounded value.
\<close>

definition round_half_even :: "rat \<Rightarrow> int" where
  "round_half_even x =
     (let f = \<lfloor>x\<rfloor>; r = x - of_int f
      in if r < 1 / 2 then f else if 1 / 2 < r then f + 1 else if even f then f else f + 1)"

definition round4 :: "rat \<Rightarrow> rat" where
  "round4 x = of_int (round_half_even (x * 10000)) / 10000"

text \<open>\<^verbatim>\<open>round(x, 2)\<close>, which only the printed lines use.\<close>

definition round2 :: "rat \<Rightarrow> rat" where
  "round2 x = of_int (round_half_even (x * 100)) / 100"

section \<open>The store wrapper\<close>

text \<open>
  \<^verbatim>\<open>get_db_connection\<close>: the context manager around every statement. \<open>fault\<close> is what
  SQLite raises for reasons outside the program (cannot connect, locked file, failed commit);
  \<open>body\<close> is the statement, which may raise on its own (a constraint). On a
  \<^verbatim>\<open>sqlite3.Error\<close> the manager prints, rolls back (the tables stay as they were) and
  re-raises; otherwise it commits.
\<close>

definition get_db_connection ::
  "error option \<Rightarrow> (world \<Rightarrow> error + 'a \<times> world) \<Rightarrow> world \<Rightarrow> (error + 'a) \<times> world" where
  "get_db_connection fault body w =
     (case fault of
        Some e \<Rightarrow> (Inl e, print (DatabaseError e) w)
      | None \<Rightarrow>
          (case body w of
             Inl e \<Rightarrow> (Inl e, print (DatabaseError e) w)
           | Inr (x, w') \<Rightarrow> (Inr x, w')))"

text \<open>
  \<^verbatim>\<open>SELECT * FROM price_data WHERE asset = ? ORDER BY timestamp DESC LIMIT ?\<close>.
  Rows of one asset have distinct timestamps (the UNIQUE constraint), so the order is
  determined; on a list that breaks the constraint the model reverses a stable sort.
\<close>

definition select_price_data :: "string \<Rightarrow> nat \<Rightarrow> world \<Rightarrow> price_row list" where
  "select_price_data asset limit w =
     take limit (rev (sort_key p_timestamp (filter (\<lambda>r. p_asset r = asset) (price_data w))))"

definition fetch_latest_data ::
  "error option \<Rightarrow> string \<Rightarrow> nat \<Rightarrow> world \<Rightarrow> (error + price_row list) \<times> world" where
  "fetch_latest_data fault asset limit w =
     get_db_connection fault (\<lambda>w. Inr (select_price_data asset limit w, w)) w"

text \<open>
  \<^verbatim>\<open>INSERT OR REPLACE INTO price_data (asset, timestamp, price)\<close> under
  \<^verbatim>\<open>UNIQUE(asset, timestamp)\<close>: the rows in conflict are deleted and the new row is
  inserted with the next id.
\<close>

definition insert_or_replace_price :: "string \<Rightarrow> int \<Rightarrow> rat \<Rightarrow> world \<Rightarrow> world" where
  "insert_or_replace_price asset timestamp price w =
     w\<lparr>price_data :=
         filter (\<lambda>r. \<not> (p_asset r = asset \<and> p_timestamp r = timestamp)) (price_data w)
         @ [\<lparr>p_id = Suc (price_seq w), p_asset = asset, p_timestamp = timestamp,
             p_price = price\<rparr>],
       price_seq := Suc (price_seq w)\<rparr>"

text \<open>
  \<^verbatim>\<open>insert_price_data\<close>: the statement inside \<^verbatim>\<open>get_db_connection\<close>, inside
  \<^verbatim>\<open>try ... except Exception as e: print(...)\<close>. The first component of the result is
  the exception that leaves the function, if any.
\<close>

definition insert_price_data ::
  "error option \<Rightarrow> string \<Rightarrow> int \<Rightarrow> rat \<Rightarrow> world \<Rightarrow> error option \<times> world" where
  "insert_price_data fault asset timestamp price w =
     (case get_db_connection fault
             (\<lambda>w. Inr ((), insert_or_replace_price asset timestamp price w)) w of
        (Inl e, w') \<Rightarrow> (None, print (ErrorInsertingPriceData e) w')
      | (Inr _, w') \<Rightarrow> (None, w'))"

text \<open>
  \<^verbatim>\<open>INSERT INTO signals\<close>. \<open>signal_value\<close> is a float or NaN (\<open>None\<close>): SQLite binds
  NaN as NULL, and the column is \<^verbatim>\<open>REAL NOT NULL\<close>, so the statement raises
  \<^verbatim>\<open>IntegrityError\<close>. The two SMA columns accept NULL.
\<close>

definition insert_signal_row ::
  "string \<Rightarrow> int \<Rightarrow> rat option \<Rightarrow> rat option \<Rightarrow> rat option \<Rightarrow> world \<Rightarrow> error + unit \<times> world" where
  "insert_signal_row asset timestamp signal_value sma_20 sma_50 w =
     (case signal_value of
        None \<Rightarrow> Inl IntegrityError
      | Some v \<Rightarrow>
          Inr ((), w\<lparr>signals := signals w
                       @ [\<lparr>s_id = Suc (signals_seq w), s_asset = asset, s_timestamp = timestamp,
                           s_signal_value = v, s_sma_20 = sma_20, s_sma_50 = sma_50\<rparr>],
                     signals_seq := Suc (signals_seq w)\<rparr>))"

definition insert_signal ::
  "error option \<Rightarrow> string \<Rightarrow> int \<Rightarrow> rat option \<Rightarrow> rat option \<Rightarrow> rat option \<Rightarrow> world
     \<Rightarrow> error option \<times> world" where
  "insert_signal fault asset timestamp signal_value sma_20 sma_50 w =
     (case get_db_connection fault
             (insert_signal_row asset timestamp signal_value sma_20 sma_50) w of
        (Inl e, w') \<Rightarrow> (None, print (ErrorInsertingSignal e) w')
      | (Inr _, w') \<Rightarrow> (None, w'))"

definition insert_trade_row :: "string \<Rightarrow> int \<Rightarrow> action \<Rightarrow> rat \<Rightarrow> rat \<Rightarrow> world \<Rightarrow> world" where
  "insert_trade_row asset timestamp act quantity price w =
     w\<lparr>trade_history := trade_history w
         @ [\<lparr>t_id = Suc (trade_seq w), t_asset = asset, t_timestamp = timestamp,
             t_action = act, t_quantity = quantity, t_price = price\<rparr>],
       trade_seq := Suc (trade_seq w)\<rparr>"

definition insert_trade_action ::
  "error option \<Rightarrow> string \<Rightarrow> int \<Rightarrow> action \<Rightarrow> rat \<Rightarrow> rat \<Rightarrow> world \<Rightarrow> error option \<times> world" where
  "insert_trade_action fault asset timestamp act quantity price w =
     (case get_db_connection fault
             (\<lambda>w. Inr ((), insert_trade_row asset timestamp act quantity price w)) w of
        (Inl e, w') \<Rightarrow> (None, print (ErrorInsertingTradeAction e) w')
      | (Inr _, w') \<Rightarrow> (None, w'))"

section \<open>The Feeder\<close>

text \<open>
  \<^verbatim>\<open>fetch_and_store_data\<close> of \<^verbatim>\<open>PricePollingScript.py\<close>. The module dictionary
  \<^verbatim>\<open>MOCK_PRICES\<close> is state passed in and out; \<open>env\<close> gives, for each asset, the storage
  fault of its insert and the draw of \<^verbatim>\<open>random.uniform(-0.005, 0.005)\<close>. The body of the
  loop is inside \<^verbatim>\<open>try ... except Exception\<close>.
\<close>

definition STOCKS :: "string list" where "STOCKS = [''AAPL'']"

definition CRYPTOS :: "string list" where "CRYPTOS = [''BTC'']"

definition MOCK_PRICES :: "string \<rightharpoonup> rat" where
  "MOCK_PRICES = [''AAPL'' \<mapsto> 170, ''BTC'' \<mapsto> 65000]"

definition feed_asset ::
  "(string \<Rightarrow> error option \<times> rat) \<Rightarrow> int \<Rightarrow> (string \<rightharpoonup> rat) \<times> world \<Rightarrow> string
     \<Rightarrow> (string \<rightharpoonup> rat) \<times> world" where
  "feed_asset env current_time mw asset =
     (case mw of (mock, w) \<Rightarrow>
        (case mock asset of
           None \<Rightarrow> (mock, print (FeederError asset KeyError) w)
         | Some mock_price \<Rightarrow>
             (let fluctuation = snd (env asset) * mock_price;
                  current_price = mock_price + fluctuation;
                  mock' = mock(asset \<mapsto> current_price)
              in case insert_price_data (fst (env asset)) asset current_time
                        (round4 current_price) w of
                   (Some e, w') \<Rightarrow> (mock', print (FeederError asset e) w')
                 | (None, w') \<Rightarrow>
                     (mock', print (FeederSuccess asset (round2 current_price)) w'))))"

definition fetch_and_store_data ::
  "(string \<Rightarrow> error option \<times> rat) \<Rightarrow> int \<Rightarrow> (string \<rightharpoonup> rat) \<times> world
     \<Rightarrow> (string \<rightharpoonup> rat) \<times> world" where
  "fetch_and_store_data env current_time mw =
     foldl (feed_asset env current_time) mw (STOCKS @ CRYPTOS)"

section \<open>The Signal Engine\<close>

definition SMA_SHORT_PERIOD :: nat where "SMA_SHORT_PERIOD = 20"

definition SMA_LONG_PERIOD :: nat where "SMA_LONG_PERIOD = 50"

text \<open>
  \<^verbatim>\<open>series.rolling(window=n).mean()\<close> for a window \<open>n > 0\<close>: at index \<open>i\<close> the mean of
  the \<open>n\<close> values ending at \<open>i\<close>, NaN (\<open>None\<close>) while fewer than \<open>n\<close> values are there.
  The price column is \<^verbatim>\<open>REAL NOT NULL\<close>, so the series itself holds no NaN.
\<close>

definition mean :: "rat list \<Rightarrow> rat" where
  "mean xs = sum_list xs / of_nat (length xs)"

definition rolling_mean :: "nat \<Rightarrow> rat list \<Rightarrow> rat option list" where
  "rolling_mean n xs =
     map (\<lambda>i. if Suc i < n then None else Some (mean (take n (drop (Suc i - n) xs))))
       [0..<length xs]"

text \<open>
  The values of \<^verbatim>\<open>df.iloc[-1]\<close> are numpy float64 scalars: a division by zero does not
  raise, it gives an infinity or NaN.
\<close>

datatype float64 = Fin rat | PInf | NInf | NaN

definition true_divide :: "rat \<Rightarrow> rat \<Rightarrow> float64" where
  "true_divide a b =
     (if b \<noteq> 0 then Fin (a / b)
      else if 0 < a then PInf else if a < 0 then NInf else NaN)"

text \<open>Division of a float64 by a positive constant.\<close>

definition divide_by :: "float64 \<Rightarrow> rat \<Rightarrow> float64" where
  "divide_by x c = (case x of Fin a \<Rightarrow> Fin (a / c) | PInf \<Rightarrow> PInf | NInf \<Rightarrow> NInf | NaN \<Rightarrow> NaN)"

text \<open>\<^verbatim>\<open>np.clip(x, lo, hi)\<close> is \<^verbatim>\<open>minimum(maximum(x, lo), hi)\<close>; NaN stays NaN (\<open>None\<close>).\<close>

definition clip :: "float64 \<Rightarrow> rat \<Rightarrow> rat \<Rightarrow> rat option" where
  "clip x lo hi =
     (case x of Fin a \<Rightarrow> Some (min (max a lo) hi) | PInf \<Rightarrow> Some hi | NInf \<Rightarrow> Some lo
      | NaN \<Rightarrow> None)"

definition max_diff :: rat where "max_diff = 1 / 100"

text \<open>Line 46: \<^verbatim>\<open>diff_pct = (sma_20 - sma_50) / price\<close>.\<close>

definition diff_pct :: "rat \<Rightarrow> rat \<Rightarrow> rat \<Rightarrow> float64" where
  "diff_pct sma_20 sma_50 price = true_divide (sma_20 - sma_50) price"

text \<open>
  Lines 40 to 59 of \<^verbatim>\<open>generate_signals\<close>: the signal from the two averages and the price,
  NaN (\<open>None\<close>) when the quotient is 0/0.
\<close>

definition signal_of :: "rat option \<Rightarrow> rat option \<Rightarrow> rat \<Rightarrow> rat option" where
  "signal_of sma_20 sma_50 price =
     (case (sma_20, sma_50) of
        (Some a, Some b) \<Rightarrow>
          (let normalized_diff = clip (divide_by (diff_pct a b price) max_diff) (- 1) 1
           in map_option (\<lambda>n. (n + 1) / 2) normalized_diff)
      | _ \<Rightarrow> Some (1 / 2))"

text \<open>
  A pandas frame over the fetched rows: its column labels and its rows.
  \<^verbatim>\<open>pd.DataFrame(data)\<close> on a list of \<^verbatim>\<open>sqlite3.Row\<close> objects, which are sequences
  and no mappings, labels the four columns by position, 0 to 3, not by name.
\<close>

datatype label = Position nat | Name string

record frame =
  df_columns :: "label list"
  df_rows :: "price_row list"

definition DataFrame :: "price_row list \<Rightarrow> frame" where
  "DataFrame data = \<lparr>df_columns = map Position [0..<4], df_rows = data\<rparr>"

text \<open>
  \<^verbatim>\<open>df.sort_values(by='timestamp', ascending=True).reset_index(drop=True)\<close> and
  \<^verbatim>\<open>df['price']\<close>: a label the frame does not have raises \<^verbatim>\<open>KeyError\<close>.
\<close>

definition sort_values_timestamp :: "frame \<Rightarrow> error + frame" where
  "sort_values_timestamp df =
     (if Name ''timestamp'' \<in> set (df_columns df)
      then Inr (df\<lparr>df_rows := sort_key p_timestamp (df_rows df)\<rparr>)
      else Inl KeyError)"

definition price_column :: "frame \<Rightarrow> error + rat list" where
  "price_column df =
     (if Name ''price'' \<in> set (df_columns df) then Inr (map p_price (df_rows df))
      else Inl KeyError)"

text \<open>
  \<^verbatim>\<open>generate_signals\<close>. Nothing in it catches the \<^verbatim>\<open>KeyError\<close> of line 27, so it leaves
  the function.
\<close>

definition generate_signals ::
  "error option \<Rightarrow> error option \<Rightarrow> int \<Rightarrow> string \<Rightarrow> world \<Rightarrow> error option \<times> world" where
  "generate_signals fetch_fault insert_fault now asset w =
     (case fetch_latest_data fetch_fault asset (SMA_LONG_PERIOD + 5) w of
        (Inl e, w1) \<Rightarrow> (Some e, w1)
      | (Inr data, w1) \<Rightarrow>
          if length data < SMA_LONG_PERIOD
          then (None, print (SkipNotEnoughData asset SMA_LONG_PERIOD (length data)) w1)
          else
            (case sort_values_timestamp (DataFrame data) of
               Inl e \<Rightarrow> (Some e, w1)
             | Inr df \<Rightarrow>
                 (case price_column df of
                    Inl e \<Rightarrow> (Some e, w1)
                  | Inr prices \<Rightarrow>
                      (let sma_20 = last (rolling_mean SMA_SHORT_PERIOD prices);
                           sma_50 = last (rolling_mean SMA_LONG_PERIOD prices);
                           signal_value = signal_of sma_20 sma_50 (last prices)
                       in case insert_signal insert_fault asset now
                                 (map_option round4 signal_value)
                                 (map_option round4 sma_20) (map_option round4 sma_50) w1 of
                            (Some e, w2) \<Rightarrow> (Some e, w2)
                          | (None, w2) \<Rightarrow>
                              (None,
                               print (SignalMsg asset (map_option round4 signal_value)
                                        (map_option round2 sma_20)) w2)))))"

text \<open>
  \<^verbatim>\<open>update_brain\<close>: the assets in turn; an exception ends the loop. \<open>env\<close> gives the two
  storage faults of each asset's run.
\<close>

fun for_assets ::
  "(string \<Rightarrow> error option \<times> error option) \<Rightarrow> int \<Rightarrow> string list \<Rightarrow> world
     \<Rightarrow> error option \<times> world" where
  "for_assets env now [] w = (None, w)"
| "for_assets env now (asset # rest) w =
     (case generate_signals (fst (env asset)) (snd (env asset)) now asset w of
        (Some e, w') \<Rightarrow> (Some e, w')
      | (None, w') \<Rightarrow> for_assets env now rest w')"

definition update_brain ::
  "(string \<Rightarrow> error option \<times> error option) \<Rightarrow> int \<Rightarrow> world \<Rightarrow> error option \<times> world" where
  "update_brain env now w = for_assets env now [''AAPL'', ''BTC''] w"

section \<open>The Decision Engines\<close>

text \<open>
  \<^verbatim>\<open>StockTradingLoopLogic.py\<close> and \<^verbatim>\<open>CryptoTradingLoopLogic.py\<close> are the same text up
  to their four module constants, which are the fields of \<open>engine_cfg\<close>.
\<close>

record engine_cfg =
  ASSET :: string
  BUY_THRESHOLD :: rat
  SELL_THRESHOLD :: rat
  TRADE_QUANTITY :: rat

definition stock_cfg :: engine_cfg where
  "stock_cfg = \<lparr>ASSET = ''AAPL'', BUY_THRESHOLD = 75 / 100, SELL_THRESHOLD = 25 / 100,
     TRADE_QUANTITY = 10\<rparr>"

definition crypto_cfg :: engine_cfg where
  "crypto_cfg = \<lparr>ASSET = ''BTC'', BUY_THRESHOLD = 80 / 100, SELL_THRESHOLD = 20 / 100,
     TRADE_QUANTITY = 1 / 100\<rparr>"

text \<open>
  \<^verbatim>\<open>SELECT signal_value FROM signals WHERE asset = ? ORDER BY timestamp DESC LIMIT 1\<close>
  with \<^verbatim>\<open>fetchone()\<close>. The table has no uniqueness constraint; among rows of equal latest
  timestamp SQLite leaves the choice open, and the model takes the first one inserted (a
  stable sort by descending timestamp).
\<close>

definition select_latest_signal :: "string \<Rightarrow> world \<Rightarrow> signal_row option" where
  "select_latest_signal asset w =
     (case sort_key (\<lambda>r. - s_timestamp r) (filter (\<lambda>r. s_asset r = asset) (signals w)) of
        [] \<Rightarrow> None
      | r # _ \<Rightarrow> Some r)"

text \<open>The \<^verbatim>\<open>try ... except Exception\<close> block of the engines: the signal the run reads.\<close>

definition fetch_signal :: "error option \<Rightarrow> string \<Rightarrow> world \<Rightarrow> rat \<times> world" where
  "fetch_signal fault asset w =
     (case get_db_connection fault (\<lambda>w. Inr (select_latest_signal asset w, w)) w of
        (Inl e, w') \<Rightarrow> (1 / 2, print (ErrorCouldNotFetchSignal e) w')
      | (Inr signal_row, w') \<Rightarrow>
          ((case signal_row of Some r \<Rightarrow> s_signal_value r | None \<Rightarrow> 1 / 2), w'))"

text \<open>The \<^verbatim>\<open>if / elif / else\<close> of the decision logic.\<close>

definition decide :: "engine_cfg \<Rightarrow> rat \<Rightarrow> action" where
  "decide cfg latest_signal =
     (if BUY_THRESHOLD cfg \<le> latest_signal then BUY
      else if latest_signal \<le> SELL_THRESHOLD cfg then SELL
      else HOLD)"

definition run_engine ::
  "engine_cfg \<Rightarrow> error option \<Rightarrow> error option \<Rightarrow> error option \<Rightarrow> int \<Rightarrow> world
     \<Rightarrow> error option \<times> world" where
  "run_engine cfg price_fault signal_fault trade_fault current_time w =
     (case fetch_latest_data price_fault (ASSET cfg) 1 w of
        (Inl e, w1) \<Rightarrow> (Some e, w1)
      | (Inr latest_data, w1) \<Rightarrow>
          (case latest_data of
             [] \<Rightarrow> (None, print (HoldNoPriceData (ASSET cfg)) w1)
           | latest_price_row # _ \<Rightarrow>
               (case fetch_signal signal_fault (ASSET cfg) w1 of
                  (latest_signal, w2) \<Rightarrow>
                    (let current_price = p_price latest_price_row;
                         act = decide cfg latest_signal;
                         w3 = (if act = HOLD then print (HoldNeutral (round4 latest_signal)) w2
                               else w2)
                     in if act = BUY \<or> act = SELL
                        then
                          (case insert_trade_action trade_fault (ASSET cfg) current_time act
                                  (TRADE_QUANTITY cfg) current_price w3 of
                             (Some e, w4) \<Rightarrow> (Some e, w4)
                           | (None, w4) \<Rightarrow>
                               (None,
                                print (TradeExecuted act (TRADE_QUANTITY cfg) (ASSET cfg)
                                         (round2 current_price) (round4 latest_signal)) w4))
                        else (None, w3)))))"

definition run_stock_engine ::
  "error option \<Rightarrow> error option \<Rightarrow> error option \<Rightarrow> int \<Rightarrow> world \<Rightarrow> error option \<times> world" where
  "run_stock_engine = run_engine stock_cfg"

definition run_crypto_engine ::
  "error option \<Rightarrow> error option \<Rightarrow> error option \<Rightarrow> int \<Rightarrow> world \<Rightarrow> error option \<times> world" where
  "run_crypto_engine = run_engine crypto_cfg"

section \<open>Vocabulary of the properties\<close>

text \<open>
  The price series of an asset as the Signal Engine is meant to see it: the price column of
  the fetched rows, in ascending order of timestamp.
\<close>

definition price_series :: "string \<Rightarrow> world \<Rightarrow> rat list" where
  "price_series asset w =
     map p_price (sort_key p_timestamp (select_price_data asset (SMA_LONG_PERIOD + 5) w))"

text \<open>The rows a run appended to a table: what the table holds beyond its old length.\<close>

definition written_signals :: "world \<Rightarrow> world \<Rightarrow> signal_row list" where
  "written_signals w w' = drop (length (signals w)) (signals w')"

definition written_trades :: "world \<Rightarrow> world \<Rightarrow> trade_row list" where
  "written_trades w w' = drop (length (trade_history w)) (trade_history w')"

text \<open>The uniqueness constraint of the price table.\<close>

definition price_keys_unique :: "world \<Rightarrow> bool" where
  "price_keys_unique w \<longleftrightarrow> distinct (map (\<lambda>r. (p_asset r, p_timestamp r)) (price_data w))"

text \<open>The states the program can reach from the empty database by runs of its components.\<close>

inductive reachable :: "world \<Rightarrow> bool" where
  init: "reachable initial_world"
| price: "reachable w \<Longrightarrow> reachable (snd (insert_price_data fault asset timestamp price w))"
| feeder: "reachable w \<Longrightarrow> reachable (snd (fetch_and_store_data fenv now (mock, w)))"
| brain: "reachable w \<Longrightarrow> reachable (snd (update_brain benv now w))"
| engine: "reachable w \<Longrightarrow> reachable (snd (run_engine cfg pf sf tf now w))"

text \<open>A state without the signal rows of one asset.\<close>

definition without_signals :: "string \<Rightarrow> world \<Rightarrow> world" where
  "without_signals asset w = w\<lparr>signals := filter (\<lambda>r. s_asset r \<noteq> asset) (signals w)\<rparr>"

text \<open>
  The store after the prices \<open>ps\<close> were inserted for one asset at the timestamps
  \<open>0, 1, 2, ...\<close>, and the same store with one signal row on top.
\<close>

definition store_series :: "string \<Rightarrow> rat list \<Rightarrow> world" where
  "store_series asset ps =
     foldl (\<lambda>w (t, p). snd (insert_price_data None asset (int t) p w)) initial_world
       (enumerate 0 ps)"

definition store_with_signal :: "string \<Rightarrow> rat list \<Rightarrow> rat \<Rightarrow> world" where
  "store_with_signal asset ps v =
     snd (insert_signal None asset 0 (Some v) None None (store_series asset ps))"

text \<open>
  Four stores of fifty AAPL prices: 49 points at 100 and then 110 (a rise) or 200 (a spike),
  fifty points at 100 (flat), and fifty points at 0.
\<close>

definition rising_store :: world where
  "rising_store = store_series ''AAPL'' (replicate 49 100 @ [110])"

definition spike_store :: world where
  "spike_store = store_series ''AAPL'' (replicate 49 100 @ [200])"

definition flat_store :: world where
  "flat_store = store_series ''AAPL'' (replicate 50 100)"

definition zero_store :: world where
  "zero_store = store_series ''AAPL'' (replicate 50 0)"

section \<open>Basic facts\<close>

subsection \<open>The store wrapper, case by case\<close>

lemma same_store_print [simp]: "same_store w (print m w') = same_store w w'"
  by (simp add: same_store_def print_def)

lemma same_store_refl [simp]: "same_store w w"
  by (simp add: same_store_def)

lemma tables_print [simp]:
  "price_data (print m w) = price_data w" "price_seq (print m w) = price_seq w"
  "signals (print m w) = signals w" "signals_seq (print m w) = signals_seq w"
  "trade_history (print m w) = trade_history w" "trade_seq (print m w) = trade_seq w"
  "console (print m w) = console w @ [m]"
  by (simp_all add: print_def)

lemma fetch_latest_data_None [simp]:
  "fetch_latest_data None asset limit w = (Inr (select_price_data asset limit w), w)"
  by (simp add: fetch_latest_data_def get_db_connection_def)

lemma fetch_latest_data_Some [simp]:
  "fetch_latest_data (Some e) asset limit w = (Inl e, print (DatabaseError e) w)"
  by (simp add: fetch_latest_data_def get_db_connection_def)

lemma insert_price_data_None [simp]:
  "insert_price_data None asset t p w = (None, insert_or_replace_price asset t p w)"
  by (simp add: insert_price_data_def get_db_connection_def)

lemma insert_price_data_Some [simp]:
  "insert_price_data (Some e) asset t p w =
     (None, print (ErrorInsertingPriceData e) (print (DatabaseError e) w))"
  by (simp add: insert_price_data_def get_db_connection_def)

lemma insert_signal_Some [simp]:
  "insert_signal (Some e) asset t v a b w =
     (None, print (ErrorInsertingSignal e) (print (DatabaseError e) w))"
  by (simp add: insert_signal_def get_db_connection_def)

lemma insert_signal_NaN [simp]:
  "insert_signal None asset t None a b w =
     (None, print (ErrorInsertingSignal IntegrityError) (print (DatabaseError IntegrityError) w))"
  by (simp add: insert_signal_def get_db_connection_def insert_signal_row_def)

lemma insert_signal_ok [simp]:
  "insert_signal None asset t (Some v) a b w =
     (None, w\<lparr>signals := signals w
                  @ [\<lparr>s_id = Suc (signals_seq w), s_asset = asset, s_timestamp = t,
                      s_signal_value = v, s_sma_20 = a, s_sma_50 = b\<rparr>],
                signals_seq := Suc (signals_seq w)\<rparr>)"
  by (simp add: insert_signal_def get_db_connection_def insert_signal_row_def)

lemma insert_trade_action_None [simp]:
  "insert_trade_action None asset t act q p w = (None, insert_trade_row asset t act q p w)"
  by (simp add: insert_trade_action_def get_db_connection_def)

lemma insert_trade_action_Some [simp]:
  "insert_trade_action (Some e) asset t act q p w =
     (None, print (ErrorInsertingTradeAction e) (print (DatabaseError e) w))"
  by (simp add: insert_trade_action_def get_db_connection_def)

lemma fetch_signal_None [simp]:
  "fetch_signal None asset w =
     ((case select_latest_signal asset w of Some r \<Rightarrow> s_signal_value r | None \<Rightarrow> 1 / 2), w)"
  by (simp add: fetch_signal_def get_db_connection_def)

lemma fetch_signal_Some [simp]:
  "fetch_signal (Some e) asset w =
     (1 / 2, print (ErrorCouldNotFetchSignal e) (print (DatabaseError e) w))"
  by (simp add: fetch_signal_def get_db_connection_def)

lemma fst_insert_price_data: "fst (insert_price_data fault asset t p w) = None"
  by (cases fault) simp_all

lemma fst_insert_signal: "fst (insert_signal fault asset t v a b w) = None"
  by (cases fault; cases v) simp_all

lemma fst_insert_trade_action: "fst (insert_trade_action fault asset t act q p w) = None"
  by (cases fault) simp_all

subsection \<open>Rounding\<close>

lemma round_half_even_of_int [simp]: "round_half_even (of_int n) = n"
  by (simp add: round_half_even_def)

lemma round4_of_int_div [simp]: "round4 (of_int n / 10000) = of_int n / 10000"
  by (simp add: round4_def)

lemma round4_half [simp]: "round4 (1 / 2) = 1 / 2"
  using round4_of_int_div [of 5000] by simp

subsection \<open>Rolling means\<close>

lemma length_rolling_mean [simp]: "length (rolling_mean n xs) = length xs"
  by (simp add: rolling_mean_def)

lemma last_rolling_mean:
  assumes "xs \<noteq> []"
  shows "last (rolling_mean n xs) =
     (if length xs < n then None else Some (mean (take n (drop (length xs - n) xs))))"
proof -
  from assms have pos: "0 < length xs" by simp
  then have "[0..<length xs] \<noteq> []" by simp
  then have "last (rolling_mean n xs) =
      (\<lambda>i. if Suc i < n then None else Some (mean (take n (drop (Suc i - n) xs))))
        (last [0..<length xs])"
    unfolding rolling_mean_def by (rule last_map)
  also have "last [0..<length xs] = length xs - 1"
    using pos by (simp add: last_upt)
  finally show ?thesis using pos by (simp add: Suc_diff_1 less_Suc_eq_le not_less)
qed

subsection \<open>The run of a Decision Engine\<close>

lemma length_select_price_data:
  "length (select_price_data asset limit w) =
     min limit (length (filter (\<lambda>r. p_asset r = asset) (price_data w)))"
  by (simp add: select_price_data_def min.commute)

lemma select_price_data_Nil:
  "\<forall>r\<in>set (price_data w). p_asset r \<noteq> asset \<Longrightarrow> select_price_data asset limit w = []"
  by (simp add: select_price_data_def filter_empty_conv)

lemma same_store_insert_Some [simp]:
  "same_store w (snd (insert_trade_action (Some e) asset t act q p w')) = same_store w w'"
  by simp

lemma decide_cases:
  "decide cfg s = BUY \<longleftrightarrow> BUY_THRESHOLD cfg \<le> s"
  "decide cfg s = SELL \<longleftrightarrow> s < BUY_THRESHOLD cfg \<and> s \<le> SELL_THRESHOLD cfg"
  "decide cfg s = HOLD \<longleftrightarrow> s < BUY_THRESHOLD cfg \<and> SELL_THRESHOLD cfg < s"
  by (auto simp: decide_def)

text \<open>The run of an engine that found a price row, as one equation.\<close>

lemma run_engine_priced:
  assumes "select_price_data (ASSET cfg) 1 w = row # rest"
  shows "run_engine cfg None sf tf now w =
     (case fetch_signal sf (ASSET cfg) w of
        (s, w2) \<Rightarrow>
          if decide cfg s = HOLD then (None, print (HoldNeutral (round4 s)) w2)
          else (None,
                print (TradeExecuted (decide cfg s) (TRADE_QUANTITY cfg) (ASSET cfg)
                         (round2 (p_price row)) (round4 s))
                  (snd (insert_trade_action tf (ASSET cfg) now (decide cfg s)
                          (TRADE_QUANTITY cfg) (p_price row) w2))))"
proof -
  obtain s w2 where f: "fetch_signal sf (ASSET cfg) w = (s, w2)"
    by (cases "fetch_signal sf (ASSET cfg) w")
  show ?thesis
  proof (cases "decide cfg s")
    case HOLD
    then show ?thesis using assms f by (simp add: run_engine_def Let_def)
  next
    case BUY
    then show ?thesis using assms f
      by (cases tf) (simp_all add: run_engine_def Let_def)
  next
    case SELL
    then show ?thesis using assms f
      by (cases tf) (simp_all add: run_engine_def Let_def)
  qed
qed

lemma fetch_signal_tables:
  "same_store w (snd (fetch_signal sf asset w))"
  by (cases sf) simp_all

lemma written_trades_print [simp]:
  "written_trades w (print m w') = written_trades w w'"
  by (simp add: written_trades_def)

lemma run_engine_written_trades:
  assumes "select_price_data (ASSET cfg) 1 w = row # rest"
  shows "written_trades w (snd (run_engine cfg None sf tf now w)) =
     (let s = fst (fetch_signal sf (ASSET cfg) w)
      in if tf = None \<and> decide cfg s \<noteq> HOLD
         then [\<lparr>t_id = Suc (trade_seq w), t_asset = ASSET cfg, t_timestamp = now,
                 t_action = decide cfg s, t_quantity = TRADE_QUANTITY cfg,
                 t_price = p_price row\<rparr>]
         else [])"
  unfolding run_engine_priced [OF assms]
  by (cases sf; cases tf) (simp_all add: Let_def written_trades_def insert_trade_row_def)

lemma run_engine_priced_returns:
  assumes "select_price_data (ASSET cfg) 1 w = row # rest"
  shows "fst (run_engine cfg None sf tf now w) = None"
  unfolding run_engine_priced [OF assms]
  by (cases sf) simp_all

lemma run_engine_trade_prefix:
  "take (length (trade_history w)) (trade_history (snd (run_engine cfg pf sf tf now w)))
     = trade_history w"
proof (cases pf)
  case (Some e)
  then show ?thesis by (simp add: run_engine_def)
next
  case None
  show ?thesis
  proof (cases "select_price_data (ASSET cfg) 1 w")
    case Nil
    then show ?thesis using None by (simp add: run_engine_def)
  next
    case (Cons row rest)
    show ?thesis unfolding None run_engine_priced [OF Cons]
      by (cases sf; cases tf) (simp_all add: insert_trade_row_def)
  qed
qed

lemma run_engine_other_tables:
  "price_data (snd (run_engine cfg pf sf tf now w)) = price_data w \<and>
   price_seq (snd (run_engine cfg pf sf tf now w)) = price_seq w \<and>
   signals (snd (run_engine cfg pf sf tf now w)) = signals w \<and>
   signals_seq (snd (run_engine cfg pf sf tf now w)) = signals_seq w"
proof (cases pf)
  case (Some e)
  then show ?thesis by (simp add: run_engine_def)
next
  case None
  show ?thesis
  proof (cases "select_price_data (ASSET cfg) 1 w")
    case Nil
    then show ?thesis using None by (simp add: run_engine_def)
  next
    case (Cons row rest)
    show ?thesis unfolding None run_engine_priced [OF Cons]
      by (cases sf; cases tf) (simp_all add: insert_trade_row_def)
  qed
qed

section \<open>Properties of the Decision Engines\<close>

text \<open>
  C7. A Decision Engine run for an asset with no price row changes no table, whatever the
  storage does: no trade row is written, not even a HOLD record. When the price query itself
  works, the run ends normally after printing that no price data was found.
  \<open>run_stock_engine\<close> and \<open>run_crypto_engine\<close> are \<open>run_engine\<close> at \<open>stock_cfg\<close> and
  \<open>crypto_cfg\<close>.
\<close>

theorem no_price_no_trade:
  assumes "filter (\<lambda>r. p_asset r = ASSET cfg) (price_data w) = []"
  shows "same_store w (snd (run_engine cfg pf sf tf now w)) \<and>
         run_engine cfg None sf tf now w = (None, print (HoldNoPriceData (ASSET cfg)) w)"
  using assms by (cases pf) (simp_all add: run_engine_def select_price_data_def)

theorem no_price_no_trade_witness:
  "filter (\<lambda>r. p_asset r = ASSET stock_cfg) (price_data (store_series ''BTC'' [65000])) = [] \<and>
   same_store (store_series ''BTC'' [65000])
     (snd (run_stock_engine None (Some OperationalError) None 30 (store_series ''BTC'' [65000]))) \<and>
   fst (run_stock_engine None (Some OperationalError) None 30 (store_series ''BTC'' [65000])) = None"
proof -
  have h: "filter (\<lambda>r. p_asset r = ASSET stock_cfg) (price_data (store_series ''BTC'' [65000])) = []"
    by code_simp
  from no_price_no_trade [OF h, of None "Some OperationalError" None 30] h show ?thesis
    by (simp add: run_stock_engine_def)
qed

lemma select_price_data_without_signals [simp]:
  "select_price_data asset limit (without_signals a w) = select_price_data asset limit w"
  by (simp add: select_price_data_def without_signals_def)

lemma select_latest_signal_without [simp]:
  "select_latest_signal asset (without_signals asset w) = None"
  by (simp add: select_latest_signal_def without_signals_def)

lemma without_signals_fields [simp]:
  "trade_history (without_signals a w) = trade_history w"
  "trade_seq (without_signals a w) = trade_seq w"
  "price_data (without_signals a w) = price_data w"
  "price_seq (without_signals a w) = price_seq w"
  by (simp_all add: without_signals_def)

lemma decide_neutral [simp]:
  "decide stock_cfg (1 / 2) = HOLD" "decide crypto_cfg (1 / 2) = HOLD"
  by (simp_all add: decide_def stock_cfg_def crypto_cfg_def)

text \<open>
  C6. In a Decision Engine run that has a latest price and whose signal lookup raises a
  storage error, the signal read is 0.5, no exception leaves the run, and the decision step
  runs on 0.5: the trade rows written, and the price table, are those of the run on the
  same store without any signal row for the asset and without the fault. The signal table
  is untouched. For the two configured engines 0.5 is HOLD, so no table changes.
\<close>

theorem signal_fault_degrades_to_neutral:
  assumes "cfg = stock_cfg \<or> cfg = crypto_cfg"
    and "select_price_data (ASSET cfg) 1 w = row # rest"
  shows "fst (fetch_signal (Some e) (ASSET cfg) w) = 1 / 2 \<and>
         fst (run_engine cfg None (Some e) tf now w) = None \<and>
         same_store w (snd (run_engine cfg None (Some e) tf now w)) \<and>
         written_trades w (snd (run_engine cfg None (Some e) tf now w)) =
           written_trades (without_signals (ASSET cfg) w)
             (snd (run_engine cfg None None tf now (without_signals (ASSET cfg) w))) \<and>
         console (snd (run_engine cfg None (Some e) tf now w)) =
           console w @ [DatabaseError e, ErrorCouldNotFetchSignal e, HoldNeutral (1 / 2)]"
proof -
  have p': "select_price_data (ASSET cfg) 1 (without_signals (ASSET cfg) w) = row # rest"
    using assms(2) by simp
  have hold: "decide cfg (1 / 2) = HOLD"
    using assms(1) by auto
  show ?thesis
    unfolding run_engine_priced [OF assms(2)] run_engine_priced [OF p']
    using hold by (simp add: written_trades_def)
qed

theorem signal_fault_degrades_to_neutral_witness:
  "select_price_data (ASSET crypto_cfg) 1 (store_with_signal ''BTC'' [65000] 1) =
     [\<lparr>p_id = 1, p_asset = ''BTC'', p_timestamp = 0, p_price = 65000\<rparr>] \<and>
   run_crypto_engine None (Some OperationalError) None 30 (store_with_signal ''BTC'' [65000] 1) =
     (None, print (HoldNeutral (1 / 2))
              (print (ErrorCouldNotFetchSignal OperationalError)
                 (print (DatabaseError OperationalError) (store_with_signal ''BTC'' [65000] 1)))) \<and>
   written_trades (store_with_signal ''BTC'' [65000] 1)
     (snd (run_crypto_engine None None None 30 (store_with_signal ''BTC'' [65000] 1))) =
     [\<lparr>t_id = 1, t_asset = ''BTC'', t_timestamp = 30, t_action = BUY, t_quantity = 1 / 100,
        t_price = 65000\<rparr>]"
proof -
  have h: "select_price_data (ASSET crypto_cfg) 1 (store_with_signal ''BTC'' [65000] 1) =
     [\<lparr>p_id = 1, p_asset = ''BTC'', p_timestamp = 0, p_price = 65000\<rparr>]"
    by code_simp
  have b: "written_trades (store_with_signal ''BTC'' [65000] 1)
     (snd (run_crypto_engine None None None 30 (store_with_signal ''BTC'' [65000] 1))) =
     [\<lparr>t_id = 1, t_asset = ''BTC'', t_timestamp = 30, t_action = BUY, t_quantity = 1 / 100,
        t_price = 65000\<rparr>]"
    by code_simp
  have r: "run_crypto_engine None (Some OperationalError) None 30 (store_with_signal ''BTC'' [65000] 1) =
     (None, print (HoldNeutral (1 / 2))
              (print (ErrorCouldNotFetchSignal OperationalError)
                 (print (DatabaseError OperationalError) (store_with_signal ''BTC'' [65000] 1))))"
    unfolding run_crypto_engine_def run_engine_priced [OF h] by simp
  from signal_fault_degrades_to_neutral [OF disjI2 [OF refl] h, of OperationalError None 30] h b r
  show ?thesis by simp
qed

text \<open>
  C2, as amended. In a run of either Decision Engine that finds a latest price row, with \<open>s\<close>
  the signal the run reads (the stored one, or 0.5 when none is stored or the lookup fails):
  the action is BUY exactly when \<open>s \<ge> buy\<close>, SELL exactly when \<open>s < buy\<close> and \<open>s \<le> sell\<close>,
  HOLD otherwise, with thresholds 0.75 and 0.25 for the equity and 0.80 and 0.20 for the
  crypto engine, and a signal equal to a threshold trades. On BUY or SELL exactly one trade
  row is written, with the configured quantity (10, resp. 0.01), the current time and the
  fetched price, if the trade insert meets no storage error; if it meets one, the store
  wrapper catches it, no row is written and the run still ends normally. On HOLD no row is
  written.
\<close>

theorem decision_rule:
  assumes "(cfg, buy, sell, quantity) = (stock_cfg, 75 / 100, 25 / 100, 10) \<or>
           (cfg, buy, sell, quantity) = (crypto_cfg, 80 / 100, 20 / 100, 1 / 100)"
    and "select_price_data (ASSET cfg) 1 w = row # rest"
    and "s = fst (fetch_signal sf (ASSET cfg) w)"
    and "w' = snd (run_engine cfg None sf tf now w)"
  shows "(decide cfg s = BUY \<longleftrightarrow> buy \<le> s) \<and>
         (decide cfg s = SELL \<longleftrightarrow> s < buy \<and> s \<le> sell) \<and>
         (decide cfg s = HOLD \<longleftrightarrow> sell < s \<and> s < buy) \<and>
         fst (run_engine cfg None sf tf now w) = None \<and>
         trade_history w' = trade_history w @ written_trades w w' \<and>
         written_trades w w' =
           (if tf = None \<and> decide cfg s \<noteq> HOLD
            then [\<lparr>t_id = Suc (trade_seq w), t_asset = ASSET cfg, t_timestamp = now,
                    t_action = decide cfg s, t_quantity = quantity,
                    t_price = p_price row\<rparr>]
            else []) \<and>
         price_data w' = price_data w \<and> signals w' = signals w"
proof -
  have th: "BUY_THRESHOLD cfg = buy" "SELL_THRESHOLD cfg = sell" "TRADE_QUANTITY cfg = quantity"
    using assms(1) by (auto simp: stock_cfg_def crypto_cfg_def)
  have lt: "sell < buy"
    using assms(1) by auto
  have d: "decide cfg s = BUY \<longleftrightarrow> buy \<le> s"
    "decide cfg s = SELL \<longleftrightarrow> s < buy \<and> s \<le> sell"
    "decide cfg s = HOLD \<longleftrightarrow> sell < s \<and> s < buy"
    using th lt by (auto simp: decide_cases)
  have r: "fst (run_engine cfg None sf tf now w) = None"
    using assms(2) by (rule run_engine_priced_returns)
  have w: "written_trades w w' =
           (if tf = None \<and> decide cfg s \<noteq> HOLD
            then [\<lparr>t_id = Suc (trade_seq w), t_asset = ASSET cfg, t_timestamp = now,
                    t_action = decide cfg s, t_quantity = quantity,
                    t_price = p_price row\<rparr>]
            else [])"
    unfolding assms(4) run_engine_written_trades [OF assms(2)]
    using assms(3) th by (simp add: Let_def)
  have "take (length (trade_history w)) (trade_history w') = trade_history w"
    unfolding assms(4) by (rule run_engine_trade_prefix)
  then have p: "trade_history w' = trade_history w @ written_trades w w'"
    unfolding written_trades_def by (metis append_take_drop_id)
  have o: "price_data w' = price_data w \<and> signals w' = signals w"
    unfolding assms(4) using run_engine_other_tables [of cfg None sf tf now w] by simp
  from d r w p o show ?thesis by blast
qed

theorem decision_rule_witness:
  "select_price_data (ASSET stock_cfg) 1 (store_with_signal ''AAPL'' [170, 171] (75 / 100)) =
     [\<lparr>p_id = 2, p_asset = ''AAPL'', p_timestamp = 1, p_price = 171\<rparr>] \<and>
   fst (fetch_signal None (ASSET stock_cfg) (store_with_signal ''AAPL'' [170, 171] (75 / 100)))
     = 75 / 100 \<and>
   written_trades (store_with_signal ''AAPL'' [170, 171] (75 / 100))
     (snd (run_stock_engine None None None 30
        (store_with_signal ''AAPL'' [170, 171] (75 / 100)))) =
     [\<lparr>t_id = 1, t_asset = ''AAPL'', t_timestamp = 30, t_action = BUY, t_quantity = 10,
        t_price = 171\<rparr>] \<and>
   select_price_data (ASSET crypto_cfg) 1 (store_with_signal ''BTC'' [65000] (20 / 100)) =
     [\<lparr>p_id = 1, p_asset = ''BTC'', p_timestamp = 0, p_price = 65000\<rparr>] \<and>
   fst (fetch_signal None (ASSET crypto_cfg) (store_with_signal ''BTC'' [65000] (20 / 100)))
     = 20 / 100 \<and>
   written_trades (store_with_signal ''BTC'' [65000] (20 / 100))
     (snd (run_crypto_engine None None None 30
        (store_with_signal ''BTC'' [65000] (20 / 100)))) =
     [\<lparr>t_id = 1, t_asset = ''BTC'', t_timestamp = 30, t_action = SELL, t_quantity = 1 / 100,
        t_price = 65000\<rparr>] \<and>
   written_trades (store_with_signal ''BTC'' [65000] (20 / 100))
     (snd (run_crypto_engine None None (Some OperationalError) 30
        (store_with_signal ''BTC'' [65000] (20 / 100)))) = []"
proof -
  have p1: "select_price_data (ASSET stock_cfg) 1
       (store_with_signal ''AAPL'' [170, 171] (75 / 100)) =
     [\<lparr>p_id = 2, p_asset = ''AAPL'', p_timestamp = 1, p_price = 171\<rparr>]"
    by code_simp
  have s1: "fst (fetch_signal None (ASSET stock_cfg)
       (store_with_signal ''AAPL'' [170, 171] (75 / 100))) = 75 / 100"
    by code_simp
  have p2: "select_price_data (ASSET crypto_cfg) 1
       (store_with_signal ''BTC'' [65000] (20 / 100)) =
     [\<lparr>p_id = 1, p_asset = ''BTC'', p_timestamp = 0, p_price = 65000\<rparr>]"
    by code_simp
  have s2: "fst (fetch_signal None (ASSET crypto_cfg)
       (store_with_signal ''BTC'' [65000] (20 / 100))) = 20 / 100"
    by code_simp
  have t1: "trade_seq (store_with_signal ''AAPL'' [170, 171] (75 / 100)) = 0"
    and t2: "trade_seq (store_with_signal ''BTC'' [65000] (20 / 100)) = 0"
    by code_simp+
  have d1: "decide stock_cfg (75 / 100) = BUY" and d2: "decide crypto_cfg (20 / 100) = SELL"
    by (simp_all add: decide_def stock_cfg_def crypto_cfg_def)
  have a1: "ASSET stock_cfg = ''AAPL''" and a2: "ASSET crypto_cfg = ''BTC''"
    by (simp_all add: stock_cfg_def crypto_cfg_def)
  from decision_rule [OF disjI1 [OF refl] p1 s1 [symmetric] refl, where tf = None and now = 30]
    decision_rule [OF disjI2 [OF refl] p2 s2 [symmetric] refl, where tf = None and now = 30]
    decision_rule [OF disjI2 [OF refl] p2 s2 [symmetric] refl,
      where tf = "Some OperationalError" and now = 30]
    p1 s1 p2 s2 t1 t2 d1 d2 a1 a2
  show ?thesis
    by (simp add: run_stock_engine_def run_crypto_engine_def)
qed

text \<open>
  The claim as stated fails when the trade insert meets a storage error: on a store whose
  latest AAPL price is 171 and whose stored signal is 0.75, the equity engine decides BUY,
  ends normally and writes no trade row.
\<close>

theorem trade_insert_fault_counterexample:
  "select_price_data ''AAPL'' 1 (store_with_signal ''AAPL'' [170, 171] (75 / 100)) =
     [\<lparr>p_id = 2, p_asset = ''AAPL'', p_timestamp = 1, p_price = 171\<rparr>] \<and>
   decide stock_cfg
     (fst (fetch_signal None ''AAPL'' (store_with_signal ''AAPL'' [170, 171] (75 / 100)))) = BUY \<and>
   fst (run_stock_engine None None (Some OperationalError) 30
          (store_with_signal ''AAPL'' [170, 171] (75 / 100))) = None \<and>
   trade_history (snd (run_stock_engine None None (Some OperationalError) 30
          (store_with_signal ''AAPL'' [170, 171] (75 / 100)))) = []"
  by code_simp

section \<open>Properties of the Signal Engine\<close>

subsection \<open>The frame of line 26 and the sort of line 27\<close>

lemma sort_values_DataFrame: "sort_values_timestamp (DataFrame data) = Inl KeyError"
  by (auto simp: sort_values_timestamp_def DataFrame_def)

lemma generate_signals_enough:
  assumes "SMA_LONG_PERIOD \<le> length (select_price_data asset (SMA_LONG_PERIOD + 5) w)"
  shows "generate_signals None insert_fault now asset w = (Some KeyError, w)"
  using assms by (simp add: generate_signals_def sort_values_DataFrame not_less)

lemma generate_signals_short:
  assumes "length (select_price_data asset (SMA_LONG_PERIOD + 5) w) < SMA_LONG_PERIOD"
  shows "generate_signals None insert_fault now asset w =
     (None, print (SkipNotEnoughData asset SMA_LONG_PERIOD
                     (length (select_price_data asset (SMA_LONG_PERIOD + 5) w))) w)"
  using assms by (simp add: generate_signals_def)

lemma generate_signals_fetch_fault:
  "generate_signals (Some e) insert_fault now asset w = (Some e, print (DatabaseError e) w)"
  by (simp add: generate_signals_def)

text \<open>No run of the Signal Engine changes a table.\<close>

lemma generate_signals_same_store:
  "same_store w (snd (generate_signals fetch_fault insert_fault now asset w))"
proof (cases fetch_fault)
  case (Some e)
  then show ?thesis by (simp add: generate_signals_fetch_fault)
next
  case None
  show ?thesis
  proof (cases "SMA_LONG_PERIOD \<le> length (select_price_data asset (SMA_LONG_PERIOD + 5) w)")
    case False
    then show ?thesis using None by (simp add: generate_signals_short)
  next
    case True
    show ?thesis unfolding None generate_signals_enough [OF True] by simp
  qed
qed

lemma generate_signals_other_tables:
  "price_data (snd (generate_signals fetch_fault insert_fault now asset w)) = price_data w \<and>
   price_seq (snd (generate_signals fetch_fault insert_fault now asset w)) = price_seq w \<and>
   trade_history (snd (generate_signals fetch_fault insert_fault now asset w)) = trade_history w \<and>
   trade_seq (snd (generate_signals fetch_fault insert_fault now asset w)) = trade_seq w"
  using generate_signals_same_store [of w fetch_fault insert_fault now asset]
  by (simp add: same_store_def)

lemma written_signals_print [simp]:
  "written_signals w (print m w') = written_signals w w'"
  by (simp add: written_signals_def)

lemma written_signals_self [simp]: "written_signals w w = []"
  by (simp add: written_signals_def)

lemma generate_signals_writes_nothing:
  "written_signals w (snd (generate_signals fetch_fault insert_fault now asset w)) = []"
  using generate_signals_same_store [of w fetch_fault insert_fault now asset]
  by (simp add: same_store_def written_signals_def)

text \<open>
  C5. When the price table holds fewer than 50 rows for the asset, a run of the Signal
  Engine changes no table, whatever the storage does, and writes no signal row; when the
  price query itself works, the run ends normally (no exception) after printing the skip
  message with the number of rows found.
\<close>

theorem insufficient_data_skips:
  assumes "length (filter (\<lambda>r. p_asset r = asset) (price_data w)) < SMA_LONG_PERIOD"
  shows "same_store w (snd (generate_signals fetch_fault insert_fault now asset w)) \<and>
         written_signals w (snd (generate_signals fetch_fault insert_fault now asset w)) = [] \<and>
         generate_signals None insert_fault now asset w =
           (None, print (SkipNotEnoughData asset SMA_LONG_PERIOD
                           (length (filter (\<lambda>r. p_asset r = asset) (price_data w)))) w)"
proof -
  have l: "length (select_price_data asset (SMA_LONG_PERIOD + 5) w) =
      length (filter (\<lambda>r. p_asset r = asset) (price_data w))"
    using assms by (simp add: length_select_price_data)
  then have s: "length (select_price_data asset (SMA_LONG_PERIOD + 5) w) < SMA_LONG_PERIOD"
    using assms by simp
  show ?thesis
    using generate_signals_short [OF s] l
    by (cases fetch_fault) (simp_all add: generate_signals_fetch_fault)
qed

theorem insufficient_data_skips_witness:
  "length (filter (\<lambda>r. p_asset r = ''AAPL'')
     (price_data (store_series ''AAPL'' (replicate 49 100)))) = 49 \<and>
   generate_signals None None 10 ''AAPL'' (store_series ''AAPL'' (replicate 49 100)) =
     (None, print (SkipNotEnoughData ''AAPL'' 50 49) (store_series ''AAPL'' (replicate 49 100)))"
proof -
  have h: "length (filter (\<lambda>r. p_asset r = ''AAPL'')
     (price_data (store_series ''AAPL'' (replicate 49 100)))) = 49"
    by code_simp
  then have h': "length (filter (\<lambda>r. p_asset r = ''AAPL'')
     (price_data (store_series ''AAPL'' (replicate 49 100)))) < SMA_LONG_PERIOD"
    by (simp add: SMA_LONG_PERIOD_def)
  from insufficient_data_skips [OF h', of None None 10] h show ?thesis
    by (simp add: SMA_LONG_PERIOD_def)
qed

subsection \<open>Lines 40 to 59 on their own\<close>

lemma clip_range: "clip x (- 1) 1 = Some n \<Longrightarrow> - 1 \<le> n \<and> n \<le> 1"
  by (cases x) (auto simp: clip_def)

text \<open>Whenever the computation yields a number, the number is between 0 and 1.\<close>

lemma signal_of_range:
  assumes "signal_of a b p = Some v"
  shows "0 \<le> v \<and> v \<le> 1"
proof (cases "a = None \<or> b = None")
  case True
  then have "signal_of a b p = Some (1 / 2)"
    by (auto simp: signal_of_def split: option.splits)
  with assms show ?thesis by simp
next
  case False
  then obtain x y where "a = Some x" "b = Some y" by auto
  with assms have "map_option (\<lambda>n. (n + 1) / 2)
      (clip (divide_by (diff_pct x y p) max_diff) (- 1) 1) = Some v"
    by (simp add: signal_of_def Let_def)
  then obtain n where n: "clip (divide_by (diff_pct x y p) max_diff) (- 1) 1 = Some n"
    and v: "v = (n + 1) / 2"
    by blast
  from clip_range [OF n] v show ?thesis by simp
qed


subsection \<open>Runs that pass the length check\<close>

lemma fifty_point_stores:
  "length (select_price_data ''AAPL'' (SMA_LONG_PERIOD + 5) rising_store) = 50"
  "length (select_price_data ''AAPL'' (SMA_LONG_PERIOD + 5) spike_store) = 50"
  "length (select_price_data ''AAPL'' (SMA_LONG_PERIOD + 5) flat_store) = 50"
  "length (select_price_data ''AAPL'' (SMA_LONG_PERIOD + 5) zero_store) = 50"
  by code_simp+

lemma fifty_point_series:
  "price_series ''AAPL'' rising_store = replicate 49 100 @ [110]"
  "price_series ''AAPL'' flat_store = replicate 50 100"
  "price_series ''AAPL'' zero_store = replicate 50 0"
  by code_simp+

lemma fifty_point_signals:
  "signals rising_store = []" "signals flat_store = []" "signals zero_store = []"
  by code_simp+



text \<open>
  C9 says that on the series of 49 points at 100 followed by one point at 110 the engine
  computes a positive \<open>diff_pct\<close> and a signal above 0.5. On the store that holds this
  series the run raises \<^verbatim>\<open>KeyError\<close> at line 27: it computes neither, and the signal table
  stays empty.
\<close>

theorem rising_series_raises_key_error:
  "price_series ''AAPL'' rising_store = replicate 49 100 @ [110] \<and>
   generate_signals None None 7 ''AAPL'' rising_store = (Some KeyError, rising_store) \<and>
   signals (snd (generate_signals None None 7 ''AAPL'' rising_store)) = []"
proof -
  have h: "SMA_LONG_PERIOD \<le> length (select_price_data ''AAPL'' (SMA_LONG_PERIOD + 5) rising_store)"
    unfolding fifty_point_stores by (simp add: SMA_LONG_PERIOD_def)
  show ?thesis
    unfolding generate_signals_enough [OF h] by (simp add: fifty_point_series fifty_point_signals)
qed

text \<open>
  C1 says that the stored signal is the clamped and shifted spread of the two averages, and
  exactly 0.5 when the averages are equal. On the store of fifty points at 100, where they
  are equal, the run raises \<^verbatim>\<open>KeyError\<close> at line 27 and stores no signal at all.
\<close>

theorem flat_series_stores_no_signal:
  "price_series ''AAPL'' flat_store = replicate 50 100 \<and>
   generate_signals None None 7 ''AAPL'' flat_store = (Some KeyError, flat_store) \<and>
   signals (snd (generate_signals None None 7 ''AAPL'' flat_store)) = []"
proof -
  have h: "SMA_LONG_PERIOD \<le> length (select_price_data ''AAPL'' (SMA_LONG_PERIOD + 5) flat_store)"
    unfolding fifty_point_stores by (simp add: SMA_LONG_PERIOD_def)
  show ?thesis
    unfolding generate_signals_enough [OF h] by (simp add: fifty_point_series fifty_point_signals)
qed


section \<open>Storage errors in the store wrapper and the Feeder\<close>

lemma feed_asset_Some:
  "mock asset = Some m \<Longrightarrow>
   feed_asset env now (mock, w) asset =
     (mock(asset \<mapsto> m + snd (env asset) * m),
      print (FeederSuccess asset (round2 (m + snd (env asset) * m)))
        (snd (insert_price_data (fst (env asset)) asset now
                (round4 (m + snd (env asset) * m)) w)))"
  using fst_insert_price_data [of "fst (env asset)" asset now "round4 (m + snd (env asset) * m)" w]
  by (cases "insert_price_data (fst (env asset)) asset now (round4 (m + snd (env asset) * m)) w")
     (simp add: feed_asset_def Let_def)

lemma feed_asset_None:
  "mock asset = None \<Longrightarrow>
   feed_asset env now (mock, w) asset = (mock, print (FeederError asset KeyError) w)"
  by (simp add: feed_asset_def)

lemma fetch_and_store_data_unfold:
  "fetch_and_store_data env now mw =
     feed_asset env now (feed_asset env now mw ''AAPL'') ''BTC''"
  by (simp add: fetch_and_store_data_def STOCKS_def CRYPTOS_def)

lemma feed_after_faulty_stock:
  "map (\<lambda>r. (p_asset r, p_timestamp r))
     (price_data (snd (fetch_and_store_data
        (\<lambda>asset. (if asset = ''AAPL'' then Some e else None, u)) now (MOCK_PRICES, w)))) =
   map (\<lambda>r. (p_asset r, p_timestamp r))
     (filter (\<lambda>r. \<not> (p_asset r = ''BTC'' \<and> p_timestamp r = now)) (price_data w))
   @ [(''BTC'', now)]"
  by (simp add: fetch_and_store_data_unfold MOCK_PRICES_def feed_asset_Some
      insert_or_replace_price_def)

text \<open>
  C4, as amended. A storage error during a price insert or a signal insert is caught inside
  the store wrapper: \<open>insert_price_data\<close>, which the Feeder calls, and \<open>insert_signal\<close>, which
  the Signal Engine calls, print the error and return normally, with every table as it was;
  no exception reaches the caller and the insert is tried once. The Feeder's tick goes on:
  after a failed insert for the first asset it inserts a row for the second under the
  current time.
\<close>

theorem insert_error_is_caught:
  "insert_price_data (Some e) asset t p w =
     (None, print (ErrorInsertingPriceData e) (print (DatabaseError e) w)) \<and>
   insert_signal (Some e) asset t sv a b w =
     (None, print (ErrorInsertingSignal e) (print (DatabaseError e) w)) \<and>
   map (\<lambda>r. (p_asset r, p_timestamp r))
     (price_data (snd (fetch_and_store_data
        (\<lambda>asset. (if asset = ''AAPL'' then Some e else None, u)) t (MOCK_PRICES, w)))) =
   map (\<lambda>r. (p_asset r, p_timestamp r))
     (filter (\<lambda>r. \<not> (p_asset r = ''BTC'' \<and> p_timestamp r = t)) (price_data w))
   @ [(''BTC'', t)]"
  using feed_after_faulty_stock [of e u t w] by simp

text \<open>
  The claim as stated fails: with a storage error both wrappers return without exception
  and leave the tables empty, and with a storage error on the AAPL insert only, the Feeder
  still inserts the BTC price.
\<close>

theorem insert_error_propagates_counterexample:
  "insert_price_data (Some OperationalError) ''AAPL'' 5 170 initial_world =
     (None,
      print (ErrorInsertingPriceData OperationalError)
        (print (DatabaseError OperationalError) initial_world)) \<and>
   insert_signal (Some OperationalError) ''AAPL'' 5 (Some (1 / 2)) (Some 100) (Some 100)
       initial_world =
     (None,
      print (ErrorInsertingSignal OperationalError)
        (print (DatabaseError OperationalError) initial_world)) \<and>
   price_data (snd (fetch_and_store_data
       (\<lambda>asset. (if asset = ''AAPL'' then Some OperationalError else None, 0)) 5
       (MOCK_PRICES, initial_world))) =
     [\<lparr>p_id = 1, p_asset = ''BTC'', p_timestamp = 5, p_price = 65000\<rparr>]"
  by code_simp

section \<open>The uniqueness constraint of the price table\<close>

lemma price_keys_unique_insert_or_replace:
  assumes "price_keys_unique w"
  shows "price_keys_unique (insert_or_replace_price asset t p w)"
proof -
  let ?key = "\<lambda>r. (p_asset r, p_timestamp r)"
  let ?rest = "filter (\<lambda>r. \<not> (p_asset r = asset \<and> p_timestamp r = t)) (price_data w)"
  from assms have "distinct (map ?key ?rest)"
    unfolding price_keys_unique_def by (rule distinct_map_filter)
  moreover have "(asset, t) \<notin> set (map ?key ?rest)"
    by auto
  ultimately show ?thesis
    by (simp add: price_keys_unique_def insert_or_replace_price_def)
qed

lemma price_data_insert_fault [simp]:
  "price_data (snd (insert_price_data (Some e) asset t p w)) = price_data w"
  by simp

lemma price_keys_unique_insert_price_data:
  "price_keys_unique w \<Longrightarrow> price_keys_unique (snd (insert_price_data fault asset t p w))"
  by (cases fault) (simp_all add: price_keys_unique_insert_or_replace, simp add: price_keys_unique_def)

lemma price_keys_unique_feed_asset:
  "price_keys_unique (snd mw) \<Longrightarrow> price_keys_unique (snd (feed_asset env now mw asset))"
proof (cases mw)
  case (Pair mock w)
  assume u: "price_keys_unique (snd mw)"
  show ?thesis
  proof (cases "mock asset")
    case None
    with u Pair show ?thesis
      by (simp add: feed_asset_None price_keys_unique_def)
  next
    case (Some m)
    from u Pair have "price_keys_unique
        (snd (insert_price_data (fst (env asset)) asset now (round4 (m + snd (env asset) * m)) w))"
      by (simp add: price_keys_unique_insert_price_data)
    then show ?thesis
      unfolding Pair feed_asset_Some [where mock = mock and asset = asset, OF Some]
      by (simp add: price_keys_unique_def)
  qed
qed

lemma price_keys_unique_feeder:
  "price_keys_unique w \<Longrightarrow> price_keys_unique (snd (fetch_and_store_data env now (mock, w)))"
  unfolding fetch_and_store_data_unfold
  by (intro price_keys_unique_feed_asset) simp

lemma for_assets_price_data:
  "price_data (snd (for_assets env now assets w)) = price_data w"
proof (induction assets arbitrary: w)
  case Nil
  show ?case by simp
next
  case (Cons a rest)
  obtain x w' where g: "generate_signals (fst (env a)) (snd (env a)) now a w = (x, w')"
    by (cases "generate_signals (fst (env a)) (snd (env a)) now a w")
  have p: "price_data w' = price_data w"
    using generate_signals_other_tables [of "fst (env a)" "snd (env a)" now a w] g by simp
  show ?case
    using g p Cons.IH [of w'] by (cases x) simp_all
qed

lemma reachable_price_keys_unique: "reachable w \<Longrightarrow> price_keys_unique w"
proof (induction rule: reachable.induct)
  case init
  show ?case by (simp add: price_keys_unique_def initial_world_def)
next
  case (price w fault asset timestamp price)
  then show ?case by (simp add: price_keys_unique_insert_price_data)
next
  case (feeder w fenv now mock)
  then show ?case by (simp add: price_keys_unique_feeder)
next
  case (brain w benv now)
  have "price_data (snd (update_brain benv now w)) = price_data w"
    unfolding update_brain_def by (rule for_assets_price_data)
  with brain.IH show ?case
    by (simp add: price_keys_unique_def)
next
  case (engine w cfg pf sf tf now)
  then show ?case
    using run_engine_other_tables [of cfg pf sf tf now w] by (simp add: price_keys_unique_def)
qed

lemma reachable_foldl_inserts:
  "reachable w \<Longrightarrow>
   reachable (foldl (\<lambda>w (t, p). snd (insert_price_data None asset (int t) p w)) w xs)"
proof (induction xs arbitrary: w)
  case Nil
  then show ?case by simp
next
  case (Cons x xs)
  obtain t p where x: "x = (t, p)" by (cases x)
  from Cons.prems have "reachable (snd (insert_price_data None asset (int t) p w))"
    by (rule reachable.price)
  from Cons.IH [OF this] show ?case by (simp add: x)
qed

lemma reachable_store_series: "reachable (store_series asset ps)"
  unfolding store_series_def by (rule reachable_foldl_inserts) (rule reachable.init)

lemma unique_key_at_most_one:
  "distinct (map f xs) \<Longrightarrow> length (filter (\<lambda>r. f r = k) xs) \<le> 1"
proof (induction xs)
  case Nil
  show ?case by simp
next
  case (Cons x xs)
  show ?case
  proof (cases "f x = k")
    case True
    with Cons.prems have "k \<notin> f ` set xs" by auto
    then have "filter (\<lambda>r. f r = k) xs = []"
      by (auto simp: filter_empty_conv)
    with True show ?thesis by simp
  next
    case False
    with Cons show ?thesis by simp
  qed
qed

text \<open>
  C8. In every state the program can reach, a price insert that meets no storage error
  leaves exactly one row under its (asset, timestamp) key, the new one with the new price,
  and every row under another key as it was; when the key was already present the number of
  rows does not grow. The price table holds at most one row per key before and after.
\<close>

theorem price_insert_replaces:
  assumes "reachable w"
    and "w' = snd (insert_price_data None asset t p w)"
  shows "filter (\<lambda>r. p_asset r = asset \<and> p_timestamp r = t) (price_data w') =
           [\<lparr>p_id = Suc (price_seq w), p_asset = asset, p_timestamp = t, p_price = p\<rparr>] \<and>
         filter (\<lambda>r. \<not> (p_asset r = asset \<and> p_timestamp r = t)) (price_data w') =
           filter (\<lambda>r. \<not> (p_asset r = asset \<and> p_timestamp r = t)) (price_data w) \<and>
         length (price_data w') =
           (if filter (\<lambda>r. p_asset r = asset \<and> p_timestamp r = t) (price_data w) = []
            then Suc (length (price_data w)) else length (price_data w)) \<and>
         price_keys_unique w \<and> price_keys_unique w'"
proof -
  let ?k = "\<lambda>r. p_asset r = asset \<and> p_timestamp r = t"
  have u: "price_keys_unique w"
    using assms(1) by (rule reachable_price_keys_unique)
  have u': "price_keys_unique w'"
    unfolding assms(2) using u by (rule price_keys_unique_insert_price_data)
  have d: "price_data w' = filter (\<lambda>r. \<not> ?k r) (price_data w)
      @ [\<lparr>p_id = Suc (price_seq w), p_asset = asset, p_timestamp = t, p_price = p\<rparr>]"
    unfolding assms(2) by (simp add: insert_or_replace_price_def)
  have one: "length (filter ?k (price_data w)) \<le> 1"
    using unique_key_at_most_one [of "\<lambda>r. (p_asset r, p_timestamp r)" "price_data w" "(asset, t)"] u
    by (simp add: price_keys_unique_def)
  have sum: "length (filter ?k (price_data w)) + length (filter (\<lambda>r. \<not> ?k r) (price_data w))
      = length (price_data w)"
    by (rule sum_length_filter_compl)
  have len: "length (price_data w') =
      (if filter ?k (price_data w) = [] then Suc (length (price_data w))
       else length (price_data w))"
  proof (cases "filter ?k (price_data w) = []")
    case True
    with sum show ?thesis unfolding d by simp
  next
    case False
    then have "length (filter ?k (price_data w)) = 1"
      using one by (cases "filter ?k (price_data w)") auto
    with sum False show ?thesis unfolding d by simp
  qed
  have f1: "filter ?k (price_data w') =
      [\<lparr>p_id = Suc (price_seq w), p_asset = asset, p_timestamp = t, p_price = p\<rparr>]"
    unfolding d by simp
  have f2: "filter (\<lambda>r. \<not> ?k r) (price_data w') = filter (\<lambda>r. \<not> ?k r) (price_data w)"
    unfolding d by simp
  from f1 f2 len u u' show ?thesis by blast
qed

theorem price_insert_replaces_witness:
  "price_data (store_series ''AAPL'' [170, 171]) =
     [\<lparr>p_id = 1, p_asset = ''AAPL'', p_timestamp = 0, p_price = 170\<rparr>,
      \<lparr>p_id = 2, p_asset = ''AAPL'', p_timestamp = 1, p_price = 171\<rparr>] \<and>
   price_data (snd (insert_price_data None ''AAPL'' 1 172 (store_series ''AAPL'' [170, 171]))) =
     [\<lparr>p_id = 1, p_asset = ''AAPL'', p_timestamp = 0, p_price = 170\<rparr>,
      \<lparr>p_id = 3, p_asset = ''AAPL'', p_timestamp = 1, p_price = 172\<rparr>] \<and>
   price_keys_unique (snd (insert_price_data None ''AAPL'' 1 172 (store_series ''AAPL'' [170, 171])))"
proof -
  have a: "price_data (store_series ''AAPL'' [170, 171]) =
     [\<lparr>p_id = 1, p_asset = ''AAPL'', p_timestamp = 0, p_price = 170\<rparr>,
      \<lparr>p_id = 2, p_asset = ''AAPL'', p_timestamp = 1, p_price = 171\<rparr>]"
    by code_simp
  have b: "price_data (snd (insert_price_data None ''AAPL'' 1 172
        (store_series ''AAPL'' [170, 171]))) =
     [\<lparr>p_id = 1, p_asset = ''AAPL'', p_timestamp = 0, p_price = 170\<rparr>,
      \<lparr>p_id = 3, p_asset = ''AAPL'', p_timestamp = 1, p_price = 172\<rparr>]"
    by code_simp
  have r: "reachable (store_series ''AAPL'' [170, 171])"
    by (rule reachable_store_series)
  from price_insert_replaces [OF r refl, where asset = "''AAPL''" and t = 1 and p = 172]
    a b show ?thesis by blast
qed

end
